theory Spec2Isabelle
  imports Complex_Main
begin

section \<open>Strings and the JavaScript string methods the server uses\<close>

text \<open>
  A JavaScript string is modelled as a \<^typ>\<open>string\<close>; one \<^typ>\<open>char\<close> stands for one
  code unit in the range 0..255. The functions below are the library methods that
  \<^verbatim>\<open>kire.js\<close> calls: \<^verbatim>\<open>startsWith\<close>, \<^verbatim>\<open>trim\<close>, \<^verbatim>\<open>split(',')\<close> and \<^verbatim>\<open>join\<close>.
\<close>

definition startsWith :: "string \<Rightarrow> string \<Rightarrow> bool" where
  "startsWith s searchString \<longleftrightarrow> take (length searchString) s = searchString"

text \<open>
  White space and line terminators of ECMAScript that fit in one byte: TAB, LF, VT, FF,
  CR, SPACE and NO-BREAK SPACE.
\<close>

definition isWhiteSpace :: "char \<Rightarrow> bool" where
  "isWhiteSpace c \<longleftrightarrow>
     c \<in> set [CHR 0x09, CHR 0x0A, CHR 0x0B, CHR 0x0C, CHR 0x0D, CHR 0x20, CHR 0xA0]"

definition trimStart :: "string \<Rightarrow> string" where
  "trimStart s = dropWhile isWhiteSpace s"

definition trim :: "string \<Rightarrow> string" where
  "trim s = rev (dropWhile isWhiteSpace (rev (dropWhile isWhiteSpace s)))"

text \<open>
  \<^verbatim>\<open>s.split(',')\<close>: the pieces between the commas; the empty string gives one empty
  piece, and the result is never the empty list.
\<close>

fun split_comma :: "string \<Rightarrow> string list" where
  "split_comma [] = [[]]"
| "split_comma (c # cs) =
     (if c = CHR '','' then [] # split_comma cs
      else (case split_comma cs of
              [] \<Rightarrow> [[c]]
            | piece # pieces \<Rightarrow> (c # piece) # pieces))"

fun join :: "string \<Rightarrow> string list \<Rightarrow> string" where
  "join sep [] = []"
| "join sep [x] = x"
| "join sep (x # y # ys) = x @ sep @ join sep (y # ys)"

section \<open>JavaScript values\<close>

text \<open>
  A Number is not-a-number, an infinity, or a finite double given by its exact value
  (the two zeros are not told apart: both are falsy and both are written \<^verbatim>\<open>0\<close> in
  JSON).
\<close>

datatype jsnum = NaN | PosInf | NegInf | Fin rat

datatype jsval =
    Undefined
  | Null
  | Bool bool
  | Num jsnum
  | Str string
  | Arr "jsval list"
  | Obj "(string \<times> jsval) list"

text \<open>
  The fields of an object are listed in insertion order, each key once.
\<close>

text \<open>
  An \<^verbatim>\<open>Error\<close> object that was thrown or that rejected a promise. What \<^verbatim>\<open>fetch\<close>,
  \<^verbatim>\<open>text()\<close> and \<^verbatim>\<open>json()\<close> reject with, and what a property access on \<^verbatim>\<open>null\<close>
  throws, is such an object, with a string as its message.
\<close>

datatype js_error = JsError (err_message: string)

text \<open>ToBoolean, as used by \<^verbatim>\<open>!x\<close>, \<^verbatim>\<open>x ? a : b\<close>, \<^verbatim>\<open>if (x)\<close> and \<^verbatim>\<open>x || y\<close>.\<close>

fun truthy :: "jsval \<Rightarrow> bool" where
  "truthy Undefined = False"
| "truthy Null = False"
| "truthy (Bool b) = b"
| "truthy (Num n) = (n \<noteq> NaN \<and> n \<noteq> Fin 0)"
| "truthy (Str s) = (s \<noteq> [])"
| "truthy (Arr xs) = True"
| "truthy (Obj fs) = True"

fun nullish :: "jsval \<Rightarrow> bool" where
  "nullish Undefined = True"
| "nullish Null = True"
| "nullish v = False"

text \<open>
  Reading a property of a value that is neither \<^verbatim>\<open>null\<close> nor \<^verbatim>\<open>undefined\<close>. The
  source reads the keys \<^verbatim>\<open>choices\<close>, \<^verbatim>\<open>0\<close>, \<^verbatim>\<open>message\<close>, \<^verbatim>\<open>content\<close>, \<^verbatim>\<open>usage\<close> and
  \<^verbatim>\<open>error\<close>; none of them is inherited from a built-in prototype, so an object
  answers with its own field, an array and a string answer only to the index
  \<^verbatim>\<open>0\<close>, and a number or a boolean has none of them.
\<close>

fun getProp :: "jsval \<Rightarrow> string \<Rightarrow> jsval" where
  "getProp (Obj fs) key = (case map_of fs key of None \<Rightarrow> Undefined | Some v \<Rightarrow> v)"
| "getProp (Arr xs) key =
     (if key = ''0'' then (case xs of [] \<Rightarrow> Undefined | x # _ \<Rightarrow> x) else Undefined)"
| "getProp (Str s) key =
     (if key = ''0'' then (case s of [] \<Rightarrow> Undefined | c # _ \<Rightarrow> Str [c]) else Undefined)"
| "getProp v key = Undefined"

text \<open>The names of the own fields of an object, in order (\<^verbatim>\<open>Object.keys\<close>).\<close>

fun own_keys :: "jsval \<Rightarrow> string list" where
  "own_keys (Obj fs) = map fst fs"
| "own_keys v = []"

text \<open>Optional chaining: \<^verbatim>\<open>v?.key\<close> and \<^verbatim>\<open>v?.[0]\<close>.\<close>

definition opt_prop :: "jsval \<Rightarrow> string \<Rightarrow> jsval" where
  "opt_prop v key = (if nullish v then Undefined else getProp v key)"

text \<open>
  \<^verbatim>\<open>JSON.stringify\<close>, with the document it writes kept as a tree: \<^verbatim>\<open>undefined\<close>
  gives no document, is dropped from an object and becomes \<^verbatim>\<open>null\<close> in an array; a
  number that is not finite is written \<^verbatim>\<open>null\<close>.
\<close>

datatype json =
    JNull
  | JBool bool
  | JNum rat
  | JStr string
  | JArr "json list"
  | JObj "(string \<times> json) list"

fun stringify :: "jsval \<Rightarrow> json option" where
  "stringify Undefined = None"
| "stringify Null = Some JNull"
| "stringify (Bool b) = Some (JBool b)"
| "stringify (Num n) = Some (case n of Fin r \<Rightarrow> JNum r | _ \<Rightarrow> JNull)"
| "stringify (Str s) = Some (JStr s)"
| "stringify (Arr xs) =
     Some (JArr (map (\<lambda>x. case stringify x of None \<Rightarrow> JNull | Some j \<Rightarrow> j) xs))"
| "stringify (Obj fs) =
     Some (JObj (concat (map (\<lambda>(k, v). case stringify v of None \<Rightarrow> [] | Some j \<Rightarrow> [(k, j)]) fs)))"


section \<open>Query parameters and number parsing\<close>

text \<open>
  A value of \<^verbatim>\<open>req.query\<close>: absent, a string, an array (a repeated parameter) or a
  nested object (a bracketed parameter).
\<close>

datatype qparam =
    QUndefined
  | QString string
  | QArray "qparam list"
  | QObject "(string \<times> qparam) list"

fun qtruthy :: "qparam \<Rightarrow> bool" where
  "qtruthy QUndefined = False"
| "qtruthy (QString s) = (s \<noteq> [])"
| "qtruthy (QArray xs) = True"
| "qtruthy (QObject fs) = True"

fun is_string :: "qparam \<Rightarrow> bool" where
  "is_string (QString s) = True"
| "is_string v = False"

fun string_of :: "qparam \<Rightarrow> string" where
  "string_of (QString s) = s"
| "string_of v = []"

text \<open>
  ToString, which \<^verbatim>\<open>parseFloat\<close> and \<^verbatim>\<open>parseInt\<close> apply to their argument: an array
  joins its elements with commas, a plain object is \<^verbatim>\<open>[object Object]\<close>.
\<close>

fun toString :: "qparam \<Rightarrow> string" where
  "toString QUndefined = ''undefined''"
| "toString (QString s) = s"
| "toString (QArray xs) =
     join '','' (map (\<lambda>x. case x of QUndefined \<Rightarrow> [] | _ \<Rightarrow> toString x) xs)"
| "toString (QObject fs) = ''[object Object]''"

definition isDigit :: "char \<Rightarrow> bool" where
  "isDigit c \<longleftrightarrow> c \<in> set ''0123456789''"

definition isHexDigit :: "char \<Rightarrow> bool" where
  "isHexDigit c \<longleftrightarrow> c \<in> set ''0123456789abcdefABCDEF''"

definition digitValue :: "char \<Rightarrow> nat" where
  "digitValue c =
     (if c \<in> set ''0123456789'' then of_char c - 48
      else if c \<in> set ''abcdef'' then of_char c - 87
      else of_char c - 55)"

definition radixValue :: "nat \<Rightarrow> string \<Rightarrow> nat" where
  "radixValue R digits = foldl (\<lambda>a c. R * a + digitValue c) 0 digits"

text \<open>
  The factor of an exponent part at the head of \<open>s\<close>: \<^verbatim>\<open>e\<close> or \<^verbatim>\<open>E\<close>, an optional
  sign and at least one digit; anything else is no exponent part.
\<close>

definition exponentFactor :: "string \<Rightarrow> rat" where
  "exponentFactor s =
     (if startsWith s ''e'' \<or> startsWith s ''E'' then
        (let r = tl s;
             neg = startsWith r ''-'';
             r' = (if startsWith r ''+'' \<or> neg then tl r else r);
             digits = takeWhile isDigit r'
         in if digits = [] then 1
            else if neg then 1 / 10 ^ radixValue 10 digits
            else 10 ^ radixValue 10 digits)
      else 1)"

text \<open>
  The longest prefix of \<open>s\<close> that is an unsigned decimal literal, as its mathematical
  value: \<^verbatim>\<open>Infinity\<close>, or digits with an optional fraction and exponent.
\<close>

datatype mathvalue = MVInfinity | MVFinite rat

definition strUnsignedDecimalPrefix :: "string \<Rightarrow> mathvalue option" where
  "strUnsignedDecimalPrefix s =
     (if startsWith s ''Infinity'' then Some MVInfinity
      else
        (let intDigits = takeWhile isDigit s;
             r1 = dropWhile isDigit s;
             hasDot = startsWith r1 ''.'';
             fracDigits = (if hasDot then takeWhile isDigit (tl r1) else []);
             r2 = (if hasDot then dropWhile isDigit (tl r1) else r1)
         in if intDigits = [] \<and> fracDigits = [] then None
            else Some (MVFinite
              ((of_nat (radixValue 10 intDigits)
                + of_nat (radixValue 10 fracDigits) / 10 ^ length fracDigits)
               * exponentFactor r2))))"

text \<open>
  \<^verbatim>\<open>parseFloat\<close> and \<^verbatim>\<open>parseInt\<close> (no radix argument) on the string form of their
  argument. The rounding of a mathematical value to the nearest double is the
  parameter \<open>rnd\<close>; whether the result is \<^verbatim>\<open>NaN\<close> does not depend on it.
\<close>

definition parseFloat :: "(rat \<Rightarrow> jsnum) \<Rightarrow> string \<Rightarrow> jsnum" where
  "parseFloat rnd inputString =
     (let trimmed = trimStart inputString;
          neg = startsWith trimmed ''-'';
          unsigned = (if startsWith trimmed ''+'' \<or> neg then tl trimmed else trimmed)
      in case strUnsignedDecimalPrefix unsigned of
           None \<Rightarrow> NaN
         | Some MVInfinity \<Rightarrow> (if neg then NegInf else PosInf)
         | Some (MVFinite r) \<Rightarrow> rnd (if neg then - r else r))"

definition parseInt :: "(rat \<Rightarrow> jsnum) \<Rightarrow> string \<Rightarrow> jsnum" where
  "parseInt rnd inputString =
     (let S = trimStart inputString;
          neg = startsWith S ''-'';
          S1 = (if startsWith S ''+'' \<or> neg then tl S else S);
          hex = (startsWith S1 ''0x'' \<or> startsWith S1 ''0X'');
          S2 = (if hex then drop 2 S1 else S1);
          Z = takeWhile (if hex then isHexDigit else isDigit) S2;
          mathInt = radixValue (if hex then 16 else 10) Z
      in if Z = [] then NaN
         else rnd (if neg then - of_nat mathInt else of_nat mathInt))"

section \<open>The model registry\<close>

definition MODELS :: "string list" where
  "MODELS =
    [''gpt-4o'',
     ''gpt-4o-mini'',
     ''AI21-Jamba-Instruct'',
     ''Cohere-command-r'',
     ''Cohere-command-r-plus'',
     ''Cohere-embed-v3-english'',
     ''Cohere-embed-v3-multilingual'',
     ''Meta-Llama-3-70B-Instruct'',
     ''Meta-Llama-3-8B-Instruct'',
     ''Meta-Llama-3.1-405B-Instruct'',
     ''Meta-Llama-3.1-70B-Instruct'',
     ''Meta-Llama-3.1-8B-Instruct'',
     ''Meta-Llama-3.2-11B-Vision-Instruct'',
     ''Meta-Llama-3.2-1B-Instruct'',
     ''Meta-Llama-3.2-3B-Instruct'',
     ''Meta-Llama-3.2-90B-Vision-Instruct'',
     ''Mistral-large-2407'',
     ''Mistral-Nemo'',
     ''Mistral-small'',
     ''Phi-3.5-mini-instruct'',
     ''Phi-3.5-MoE-instruct'',
     ''Phi-3.5-vision-instruct'',
     ''Qwen2.5-72B-Instruct'',
     ''Qwen2.5-Coder-32B-Instruct'']"

definition getPublisher :: "string \<Rightarrow> string" where
  "getPublisher modelId =
     (if startsWith modelId ''gpt-'' then ''OpenAI''
      else if startsWith modelId ''Meta-Llama'' then ''Meta''
      else if startsWith modelId ''Mistral'' then ''Mistral''
      else if startsWith modelId ''Phi-'' then ''Microsoft''
      else if startsWith modelId ''Cohere'' then ''Cohere''
      else if startsWith modelId ''AI21'' then ''AI21 Labs''
      else if startsWith modelId ''Qwen'' then ''Qwen''
      else ''Unknown'')"

text \<open>
  The rule of the specification, in its own words: an ordered table of prefix and
  label, the first matching row wins, and no row gives \<^verbatim>\<open>Unknown\<close>.
\<close>

definition spec_publisher_rules :: "(string \<times> string) list" where
  "spec_publisher_rules =
    [(''gpt-'', ''OpenAI''),
     (''Meta-Llama'', ''Meta''),
     (''Mistral'', ''Mistral''),
     (''Phi-'', ''Microsoft''),
     (''Cohere'', ''Cohere''),
     (''AI21'', ''AI21 Labs''),
     (''Qwen'', ''Qwen'')]"

fun spec_first_match :: "(string \<times> string) list \<Rightarrow> string \<Rightarrow> string" where
  "spec_first_match [] modelId = ''Unknown''"
| "spec_first_match ((pre, label) # rules) modelId =
     (if startsWith modelId pre then label else spec_first_match rules modelId)"

section \<open>The remote endpoint and the clock\<close>

text \<open>
  What \<^verbatim>\<open>fetch\<close> is given: the address, the method, the headers and the body, which
  is the document written by \<^verbatim>\<open>JSON.stringify\<close>.
\<close>

record fetch_request =
  req_url :: string
  req_method :: string
  req_headers :: "(string \<times> string) list"
  req_body :: "json option"

text \<open>
  The \<^verbatim>\<open>Response\<close> object as the helper sees it: the flag \<^verbatim>\<open>ok\<close>, and what
  \<^verbatim>\<open>text()\<close> and \<^verbatim>\<open>json()\<close> settle with (\<open>Inl\<close> is a rejection). \<^verbatim>\<open>fetch\<close> itself
  either rejects (a transport failure) or resolves with a response.
\<close>

record fetch_response =
  ok :: bool
  text_body :: "js_error + string"
  json_body :: "js_error + jsval"

datatype fetch_outcome = Rejected js_error | Resolved fetch_response

text \<open>
  What one invocation of the helper meets: the reading of \<^verbatim>\<open>Date.now()\<close> at its
  start, the outcome of \<^verbatim>\<open>fetch\<close>, the reading of \<^verbatim>\<open>Date.now()\<close> once \<^verbatim>\<open>fetch\<close> has
  resolved, and the reading taken in the \<^verbatim>\<open>catch\<close> block. The readings are
  milliseconds of the wall clock.
\<close>

record call_env =
  started :: int
  outcome :: fetch_outcome
  settled :: int
  caught :: int

text \<open>
  The world of one request: the configured credential (the environment variable or
  the default of the source), the rounding of a
  mathematical value to a double, and what the k-th outbound call (counted from 0)
  meets. The state threaded through a handler is the list of the requests issued so
  far.
\<close>

record world =
  GITHUB_TOKEN :: string
  to_double :: "rat \<Rightarrow> jsnum"
  remote :: "nat \<Rightarrow> call_env"

section \<open>The outbound call helper\<close>

text \<open>
  \<^verbatim>\<open>result.choices?.[0]?.message?.content\<close>: the first access is not optional, so a
  \<^verbatim>\<open>null\<close> or \<^verbatim>\<open>undefined\<close> result throws a TypeError (the message is the one of V8).
\<close>

definition first_content :: "jsval \<Rightarrow> js_error + jsval" where
  "first_content result =
     (case result of
        Null \<Rightarrow> Inl (JsError ''Cannot read properties of null (reading 'choices')'')
      | Undefined \<Rightarrow> Inl (JsError ''Cannot read properties of undefined (reading 'choices')'')
      | _ \<Rightarrow> Inr (opt_prop (opt_prop (opt_prop (getProp result ''choices'') ''0'')
                    ''message'') ''content''))"

definition outbound_request :: "world \<Rightarrow> string \<Rightarrow> string \<Rightarrow> jsnum \<Rightarrow> jsnum \<Rightarrow> fetch_request" where
  "outbound_request w model message temperature maxTokens =
     \<lparr>req_url = ''https://models.inference.ai.azure.com/chat/completions'',
      req_method = ''POST'',
      req_headers =
        [(''Authorization'', ''Bearer '' @ GITHUB_TOKEN w),
         (''Content-Type'', ''application/json'')],
      req_body = stringify (Obj
        [(''model'', Str model),
         (''messages'', Arr [Obj [(''role'', Str ''user''), (''content'', Str message)]]),
         (''temperature'', Num temperature),
         (''max_tokens'', Num maxTokens)])\<rparr>"

text \<open>
  The body of the \<^verbatim>\<open>try\<close> block: \<open>Inl\<close> is an exception on its way to the \<^verbatim>\<open>catch\<close>
  block, \<open>Inr\<close> a returned result.
\<close>

definition try_block :: "call_env \<Rightarrow> string \<Rightarrow> js_error + jsval" where
  "try_block env model =
     (case outcome env of
        Rejected e \<Rightarrow> Inl e
      | Resolved response \<Rightarrow>
          (let responseTime = settled env - started env
           in if \<not> ok response then
                (case text_body response of
                   Inl e \<Rightarrow> Inl e
                 | Inr errorText \<Rightarrow>
                     Inr (Obj [(''model'', Str model),
                               (''error'', Str errorText),
                               (''responseTime'', Num (Fin (of_int responseTime)))]))
              else
                (case json_body response of
                   Inl e \<Rightarrow> Inl e
                 | Inr result \<Rightarrow>
                     (case first_content result of
                        Inl e \<Rightarrow> Inl e
                      | Inr content \<Rightarrow>
                          Inr (Obj [(''model'', Str model),
                                    (''response'', if truthy content then content else Str []),
                                    (''usage'', getProp result ''usage''),
                                    (''responseTime'', Num (Fin (of_int responseTime)))])))))"

text \<open>
  \<^verbatim>\<open>callGitHubModel\<close>: one \<^verbatim>\<open>fetch\<close> is issued, and whatever the \<^verbatim>\<open>try\<close> block
  throws is turned into a result by the \<^verbatim>\<open>catch\<close> block. The first component is
  the list of issued requests, one longer than before. Both handlers pass a number
  for \<^verbatim>\<open>temperature\<close> and for \<^verbatim>\<open>maxTokens\<close>, so the default values of the two
  parameters are never used.
\<close>

definition callGitHubModel ::
  "world \<Rightarrow> fetch_request list \<Rightarrow> string \<Rightarrow> string \<Rightarrow> jsnum \<Rightarrow> jsnum
     \<Rightarrow> fetch_request list \<times> jsval" where
  "callGitHubModel w issued model message temperature maxTokens =
     (let env = remote w (length issued)
      in (issued @ [outbound_request w model message temperature maxTokens],
          case try_block env model of
            Inr result \<Rightarrow> result
          | Inl error \<Rightarrow>
              Obj [(''model'', Str model),
                   (''error'', Str (err_message error)),
                   (''responseTime'', Num (Fin (of_int (caught env - started env))))]))"

section \<open>The route handlers\<close>

record query =
  q :: qparam
  models :: qparam
  temperature :: qparam
  max_tokens :: qparam

record http_response =
  status :: nat
  payload :: jsval

text \<open>
  The two statements that both handlers run once the request is validated:
  \<^verbatim>\<open>temp = temperature ? parseFloat(temperature) : 0.7\<close> and
  \<^verbatim>\<open>maxTok = max_tokens ? parseInt(max_tokens) : 1000\<close>. The literal \<^verbatim>\<open>0.7\<close> is the
  double nearest to 7/10; 1000 is a double.
\<close>

definition temp_of :: "world \<Rightarrow> query \<Rightarrow> jsnum" where
  "temp_of w query =
     (if qtruthy (temperature query)
      then parseFloat (to_double w) (toString (temperature query))
      else to_double w (7 / 10))"

definition maxTok_of :: "world \<Rightarrow> query \<Rightarrow> jsnum" where
  "maxTok_of w query =
     (if qtruthy (max_tokens query)
      then parseInt (to_double w) (toString (max_tokens query))
      else Fin 1000)"

definition quote :: string where
  "quote = [CHR 0x27]"

text \<open>
  \<^verbatim>\<open>GET /api/models/:modelId/chat\<close>. The result is the response and the outbound
  requests that were issued.
\<close>

definition chat_handler ::
  "world \<Rightarrow> string \<Rightarrow> query \<Rightarrow> http_response \<times> fetch_request list" where
  "chat_handler w modelId query =
     (if modelId \<notin> set MODELS then
        (\<lparr>status = 404,
          payload = Obj [(''error'', Str (''Model '' @ quote @ modelId @ quote @ '' not found'')),
                         (''available_models'', Arr (map Str MODELS))]\<rparr>, [])
      else if \<not> qtruthy (q query) \<or> \<not> is_string (q query) then
        (\<lparr>status = 400,
          payload = Obj [(''error'', Str ''Query parameter 'q' is required''),
                         (''example'', Str (''/api/models/'' @ modelId @ ''/chat?q=Hello world''))]\<rparr>,
         [])
      else
        (let temp = temp_of w query;
             maxTok = maxTok_of w query;
             (issued, result) = callGitHubModel w [] modelId (string_of (q query)) temp maxTok
         in if truthy (getProp result ''error'') then (\<lparr>status = 500, payload = result\<rparr>, issued)
            else (\<lparr>status = 200, payload = result\<rparr>, issued)))"

text \<open>
  \<^verbatim>\<open>modelsList.map(model => callGitHubModel(...))\<close> followed by \<^verbatim>\<open>Promise.all\<close>: the
  calls are started in list order, and the results are collected in list order.
\<close>

fun call_all ::
  "world \<Rightarrow> fetch_request list \<Rightarrow> string list \<Rightarrow> string \<Rightarrow> jsnum \<Rightarrow> jsnum
     \<Rightarrow> fetch_request list \<times> jsval list" where
  "call_all w issued [] message temp maxTok = (issued, [])"
| "call_all w issued (model # rest) message temp maxTok =
     (let (issued1, result) = callGitHubModel w issued model message temp maxTok;
          (issued2, results) = call_all w issued1 rest message temp maxTok
      in (issued2, result # results))"

definition modelsList_of :: "string \<Rightarrow> string list" where
  "modelsList_of ms = map trim (split_comma ms)"

definition compare_example :: string where
  "compare_example = ''/api/compare?q=Hello world&models=gpt-4o,Meta-Llama-3.1-8B-Instruct''"

text \<open>\<^verbatim>\<open>GET /api/compare\<close>.\<close>

definition compare_handler :: "world \<Rightarrow> query \<Rightarrow> http_response \<times> fetch_request list" where
  "compare_handler w query =
     (if \<not> qtruthy (q query) \<or> \<not> is_string (q query) then
        (\<lparr>status = 400,
          payload = Obj [(''error'', Str ''Query parameter 'q' is required''),
                         (''example'', Str compare_example)]\<rparr>, [])
      else if \<not> qtruthy (models query) \<or> \<not> is_string (models query) then
        (\<lparr>status = 400,
          payload = Obj [(''error'', Str ''Query parameter 'models' is required (comma-separated)''),
                         (''example'', Str compare_example)]\<rparr>, [])
      else
        (let modelsList = modelsList_of (string_of (models query));
             invalidModels = filter (\<lambda>model. model \<notin> set MODELS) modelsList
         in if length invalidModels > 0 then
              (\<lparr>status = 400,
                payload = Obj [(''error'', Str (''Invalid models: '' @ join '', '' invalidModels)),
                               (''available_models'', Arr (map Str MODELS))]\<rparr>, [])
            else
              (let temp = temp_of w query;
                   maxTok = maxTok_of w query;
                   (issued, results) = call_all w [] modelsList (string_of (q query)) temp maxTok
               in (\<lparr>status = 200, payload = Obj [(''results'', Arr results)]\<rparr>, issued))))"

section \<open>Sample replies and worlds\<close>

text \<open>The reply of the end-to-end example of the specification.\<close>

definition hi_text :: string where
  \<open>hi_text = ''{"choices":[{"message":{"content":"Hi!"}}],"usage":{"total_tokens":5}}''\<close>

definition reply_hi :: fetch_response where
  "reply_hi =
     \<lparr>ok = True,
      text_body = Inr hi_text,
      json_body = Inr (Obj
        [(''choices'', Arr [Obj [(''message'', Obj [(''content'', Str ''Hi!'')])]]),
         (''usage'', Obj [(''total_tokens'', Num (Fin 5))])])\<rparr>"

text \<open>A reply with a non-success status and the given body, which is not JSON.\<close>

definition reply_error :: "string \<Rightarrow> fetch_response" where
  "reply_error errorText =
     \<lparr>ok = False,
      text_body = Inr errorText,
      json_body = Inl (JsError ''Unexpected end of JSON input'')\<rparr>"

text \<open>
  A world in which every call starts at 1000 ms, settles at 1250 ms and would reach
  its \<^verbatim>\<open>catch\<close> block at 1300 ms, and in which every value met is a double.
\<close>

definition sample_world :: "(nat \<Rightarrow> fetch_outcome) \<Rightarrow> world" where
  "sample_world outcomes =
     \<lparr>GITHUB_TOKEN = ''token'',
      to_double = Fin,
      remote = (\<lambda>k. \<lparr>started = 1000, outcome = outcomes k, settled = 1250, caught = 1300\<rparr>)\<rparr>"

definition sample_query :: "qparam \<Rightarrow> qparam \<Rightarrow> query" where
  "sample_query message ms =
     \<lparr>q = message, models = ms, temperature = QUndefined, max_tokens = QUndefined\<rparr>"

text \<open>A reply with a success status whose JSON body is \<^verbatim>\<open>null\<close>.\<close>

definition reply_null :: fetch_response where
  "reply_null = \<lparr>ok = True, text_body = Inr ''null'', json_body = Inr Null\<rparr>"

text \<open>A reply with a success status whose body is a page of markup, not JSON.\<close>

definition reply_html :: fetch_response where
  "reply_html =
     \<lparr>ok = True,
      text_body = Inr ''<html>'',
      json_body = Inl (JsError ''Unexpected token < in JSON at position 0'')\<rparr>"

definition world_hi :: world where
  "world_hi = sample_world (\<lambda>k. Resolved reply_hi)"

definition world_empty_error :: world where
  "world_empty_error = sample_world (\<lambda>k. Resolved (reply_error []))"

definition world_rate_limited :: world where
  "world_rate_limited = sample_world (\<lambda>k. Resolved (reply_error ''rate limited''))"

definition world_null :: world where
  "world_null = sample_world (\<lambda>k. Resolved reply_null)"

definition world_html :: world where
  "world_html = sample_world (\<lambda>k. Resolved reply_html)"

definition world_fail_then_hi :: world where
  "world_fail_then_hi =
     sample_world (\<lambda>k. if k = 0 then Rejected (JsError ''fetch failed'') else Resolved reply_hi)"

text \<open>
  A world whose wall clock is set back by the operating system while the call is in
  flight: the reading after the reply is earlier than the reading at the start.
\<close>

definition world_clock_back :: world where
  "world_clock_back =
     \<lparr>GITHUB_TOKEN = ''token'',
      to_double = Fin,
      remote = (\<lambda>k. \<lparr>started = 1000, outcome = Resolved reply_hi, settled = 900, caught = 950\<rparr>)\<rparr>"

definition sample_chat :: query where
  "sample_chat = sample_query (QString ''Hello'') QUndefined"

definition sample_compare :: query where
  "sample_compare = sample_query (QString ''Hi'') (QString ''gpt-4o,Mistral-small'')"

text \<open>A chat request whose \<^verbatim>\<open>temperature\<close> and \<^verbatim>\<open>max_tokens\<close> are not numbers.\<close>

definition sample_not_numbers :: query where
  "sample_not_numbers =
     \<lparr>q = QString ''Hello'', models = QString ''gpt-4o,Mistral-small'',
      temperature = QString ''abc'', max_tokens = QString ''many''\<rparr>"

text \<open>
  A reply with a non-success status whose body cannot be read: the connection is
  lost while the body is received, and \<^verbatim>\<open>text()\<close> rejects.
\<close>

definition reply_broken_body :: fetch_response where
  "reply_broken_body =
     \<lparr>ok = False,
      text_body = Inl (JsError ''terminated''),
      json_body = Inl (JsError ''terminated'')\<rparr>"

definition world_broken_body :: world where
  "world_broken_body = sample_world (\<lambda>k. Resolved reply_broken_body)"

text \<open>A reply with a success status whose first completion has the content 0.\<close>

definition reply_zero :: fetch_response where
  "reply_zero =
     \<lparr>ok = True,
      text_body = Inr ''(not read)'',
      json_body = Inr (Obj
        [(''choices'', Arr [Obj [(''message'', Obj [(''content'', Num (Fin 0))])]])])\<rparr>"

definition world_zero :: world where
  "world_zero = sample_world (\<lambda>k. Resolved reply_zero)"

section \<open>The publisher rule\<close>

text \<open>
  Claim C7. \<^const>\<open>getPublisher\<close> is a total function of the identifier alone; it is
  the first-match evaluation of the ordered, case-sensitive prefix table of the
  specification (\<^verbatim>\<open>gpt-\<close>, \<^verbatim>\<open>Meta-Llama\<close>, \<^verbatim>\<open>Mistral\<close>, \<^verbatim>\<open>Phi-\<close>, \<^verbatim>\<open>Cohere\<close>,
  \<^verbatim>\<open>AI21\<close>, \<^verbatim>\<open>Qwen\<close>, otherwise \<^verbatim>\<open>Unknown\<close>), an identifier that differs from a
  prefix only in case is not matched, and every identifier of the registry gets one
  of the seven publisher labels, never \<^verbatim>\<open>Unknown\<close>.
\<close>

theorem getPublisher_first_match_registry:
  "getPublisher modelId = spec_first_match spec_publisher_rules modelId
   \<and> getPublisher ''GPT-4o'' = ''Unknown''
   \<and> distinct (map snd spec_publisher_rules)
   \<and> (\<forall>model \<in> set MODELS.
         getPublisher model \<in> set (map snd spec_publisher_rules)
         \<and> getPublisher model \<noteq> ''Unknown'')"
proof -
  have table: "getPublisher modelId = spec_first_match spec_publisher_rules modelId"
    by (simp add: getPublisher_def spec_publisher_rules_def)
  have cased: "getPublisher ''GPT-4o'' = ''Unknown''"
    by (simp add: getPublisher_def startsWith_def)
  have labels: "distinct (map snd spec_publisher_rules)"
    by (simp add: spec_publisher_rules_def)
  have registry: "\<forall>model \<in> set MODELS.
      getPublisher model \<in> set (map snd spec_publisher_rules) \<and> getPublisher model \<noteq> ''Unknown''"
    by (simp add: MODELS_def getPublisher_def startsWith_def spec_publisher_rules_def)
  from table cased labels registry show ?thesis by blast
qed

theorem getPublisher_first_match_registry_witness:
  "''Phi-3.5-MoE-instruct'' \<in> set MODELS
   \<and> getPublisher ''Phi-3.5-MoE-instruct'' = ''Microsoft''
   \<and> getPublisher ''Phi-3.5-MoE-instruct'' \<in> set (map snd spec_publisher_rules)"
  using getPublisher_first_match_registry [of "''Phi-3.5-MoE-instruct''"]
  by (simp add: MODELS_def spec_publisher_rules_def startsWith_def)

section \<open>Facts about the helper and the fan-out\<close>

lemmas sample_defs =
  sample_world_def sample_query_def sample_chat_def sample_compare_def sample_not_numbers_def
  world_hi_def world_empty_error_def world_rate_limited_def world_null_def world_html_def
  world_fail_then_hi_def world_clock_back_def
  reply_hi_def reply_error_def reply_null_def reply_html_def
  reply_broken_body_def world_broken_body_def reply_zero_def world_zero_def

lemmas helper_defs =
  callGitHubModel_def try_block_def first_content_def opt_prop_def outbound_request_def Let_def



lemma callGitHubModel_issued:
  "fst (callGitHubModel w issued model message temp maxTok)
     = issued @ [outbound_request w model message temp maxTok]"
  by (simp add: callGitHubModel_def Let_def)




lemma call_all_length:
  "length (snd (call_all w issued ms message temp maxTok)) = length ms"
  by (induction ms arbitrary: issued) (simp_all add: split_beta Let_def)




text \<open>The two handlers on a request that passed their checks.\<close>

lemma chat_handler_validated:
  assumes "modelId \<in> set MODELS" and "q query = QString message" and "message \<noteq> []"
  shows "chat_handler w modelId query =
     (\<lparr>status =
         (if truthy (getProp (snd (callGitHubModel w [] modelId message
                                    (temp_of w query) (maxTok_of w query))) ''error'')
          then 500 else 200),
       payload = snd (callGitHubModel w [] modelId message (temp_of w query) (maxTok_of w query))\<rparr>,
      [outbound_request w modelId message (temp_of w query) (maxTok_of w query)])"
  using assms by (simp add: chat_handler_def split_beta Let_def callGitHubModel_issued)



lemma compare_invalid_models:
  assumes "q query = QString message" and "message \<noteq> []"
    and "models query = QString ms" and "ms \<noteq> []"
    and "model \<in> set (modelsList_of ms)" and "model \<notin> set MODELS"
  shows "compare_handler w query =
     (\<lparr>status = 400,
       payload = Obj [(''error'', Str (''Invalid models: ''
                        @ join '', '' (filter (\<lambda>model. model \<notin> set MODELS) (modelsList_of ms)))),
                      (''available_models'', Arr (map Str MODELS))]\<rparr>, [])"
proof -
  from assms(5,6) have "filter (\<lambda>model. model \<notin> set MODELS) (modelsList_of ms) \<noteq> []"
    by (auto simp: filter_empty_conv)
  with assms(1-4) show ?thesis
    by (simp add: compare_handler_def Let_def)
qed


text \<open>Every element of a joined list occurs in the joined string.\<close>

lemma join_mentions:
  "x \<in> set xs \<Longrightarrow> \<exists>pre post. join sep xs = pre @ x @ post"
proof (induction sep xs rule: join.induct)
  case (1 sep)
  then show ?case by simp
next
  case (2 sep y)
  then have "join sep [y] = [] @ x @ []" by simp
  then show ?case by blast
next
  case (3 sep y z zs)
  show ?case
  proof (cases "x = y")
    case True
    then have "join sep (y # z # zs) = [] @ x @ (sep @ join sep (z # zs))" by simp
    then show ?thesis by blast
  next
    case False
    with "3.prems" have "x \<in> set (z # zs)" by simp
    from "3.IH" [OF this] obtain pre post where "join sep (z # zs) = pre @ x @ post" by blast
    then have "join sep (y # z # zs) = (y @ sep @ pre) @ x @ post" by simp
    then show ?thesis by blast
  qed
qed

section \<open>Compare: one call and one result per listed model\<close>



section \<open>Single-model chat: the status follows the truthiness of the error field\<close>

text \<open>
  Claim C2. The handler tests \<^verbatim>\<open>result.error\<close> for truthiness. A failure result
  whose error text is the empty string (an error reply with an empty body) is
  therefore answered with status 200, not 500: the request below is a validated
  chat request, the helper returns a failure result (it has an \<^verbatim>\<open>error\<close> field and
  no \<^verbatim>\<open>response\<close> field), and the status is 200.
\<close>

theorem chat_failure_with_empty_body_answers_200:
  "chat_handler world_empty_error ''gpt-4o'' sample_chat =
     (\<lparr>status = 200,
       payload = Obj [(''model'', Str ''gpt-4o''), (''error'', Str []),
                      (''responseTime'', Num (Fin 250))]\<rparr>,
      [outbound_request world_empty_error ''gpt-4o'' ''Hello'' (Fin (7 / 10)) (Fin 1000)])"
  by (simp add: chat_handler_def MODELS_def sample_defs helper_defs temp_of_def maxTok_of_def)

theorem chat_failure_with_empty_body_answers_200_witness:
  "status (fst (chat_handler world_empty_error ''gpt-4o'' sample_chat)) = 200
   \<and> own_keys (payload (fst (chat_handler world_empty_error ''gpt-4o'' sample_chat)))
       = [''model'', ''error'', ''responseTime'']
   \<and> length (snd (chat_handler world_empty_error ''gpt-4o'' sample_chat)) = 1"
  using chat_failure_with_empty_body_answers_200 by simp

section \<open>Identifiers outside the registry\<close>




section \<open>A missing query text\<close>

text \<open>
  Claim C4, as stated, fails for chat: the handler looks the model up before it
  looks at \<^verbatim>\<open>q\<close>, so a chat request without \<^verbatim>\<open>q\<close> for an identifier outside the
  registry is answered 404, with the list of models and no example.
\<close>

theorem chat_without_q_for_unknown_model_is_404:
  "q (sample_query QUndefined QUndefined) = QUndefined
   \<and> chat_handler world_hi ''nope'' (sample_query QUndefined QUndefined) =
        (\<lparr>status = 404,
          payload = Obj [(''error'', Str ''Model 'nope' not found''),
                         (''available_models'', Arr (map Str MODELS))]\<rparr>, [])
   \<and> getProp (payload (fst (chat_handler world_hi ''nope'' (sample_query QUndefined QUndefined))))
        ''example'' = Undefined"
  by (simp add: chat_handler_def MODELS_def sample_query_def quote_def)

text \<open>
  Claim C4, amended. For every chat request that names a model of the registry, and
  for every compare request, whose \<^verbatim>\<open>q\<close> is missing or empty, the handler answers
  400 with an example usage string and issues no outbound call.
\<close>

theorem missing_q_is_400_with_example:
  assumes "q query = QUndefined \<or> q query = QString []"
  shows "(modelId \<in> set MODELS \<longrightarrow>
            chat_handler w modelId query =
              (\<lparr>status = 400,
                payload = Obj [(''error'', Str ''Query parameter 'q' is required''),
                               (''example'',
                                Str (''/api/models/'' @ modelId @ ''/chat?q=Hello world''))]\<rparr>, []))
         \<and> compare_handler w query =
              (\<lparr>status = 400,
                payload = Obj [(''error'', Str ''Query parameter 'q' is required''),
                               (''example'', Str compare_example)]\<rparr>, [])"
  using assms by (auto simp: chat_handler_def compare_handler_def)

theorem missing_q_is_400_with_example_witness:
  "q (sample_query (QString []) (QString ''gpt-4o'')) = QString []
   \<and> ''gpt-4o'' \<in> set MODELS
   \<and> chat_handler world_hi ''gpt-4o'' (sample_query (QString []) (QString ''gpt-4o'')) =
        (\<lparr>status = 400,
          payload = Obj [(''error'', Str ''Query parameter 'q' is required''),
                         (''example'', Str ''/api/models/gpt-4o/chat?q=Hello world'')]\<rparr>, [])
   \<and> status (fst (compare_handler world_hi (sample_query (QString []) (QString ''gpt-4o'')))) = 400
   \<and> snd (compare_handler world_hi (sample_query (QString []) (QString ''gpt-4o''))) = []"
proof -
  have empty: "q (sample_query (QString []) (QString ''gpt-4o'')) = QUndefined
      \<or> q (sample_query (QString []) (QString ''gpt-4o'')) = QString []"
    by (simp add: sample_query_def)
  have known: "''gpt-4o'' \<in> set MODELS"
    by (simp add: MODELS_def)
  from missing_q_is_400_with_example [OF empty, of "''gpt-4o''" world_hi] known
  show ?thesis by (simp add: sample_query_def)
qed

section \<open>Compare reports every invalid identifier\<close>

text \<open>
  Claim C5, as stated, fails: the check of \<^verbatim>\<open>q\<close> comes first, so a compare request
  without \<^verbatim>\<open>q\<close> whose list has an identifier outside the registry gets a 400 that
  reports the missing \<^verbatim>\<open>q\<close> and no identifier; an empty model list, whose only
  entry is the empty string, gets a 400 that reports the missing list; and the
  entries are trimmed before the lookup, so the entry \<^verbatim>\<open>" gpt-4o"\<close>, itself not in
  the registry, is not reported.
\<close>

theorem compare_without_q_reports_no_identifier:
  "''nope'' \<in> set (modelsList_of ''gpt-4o,nope'') \<and> ''nope'' \<notin> set MODELS
   \<and> compare_handler world_hi (sample_query QUndefined (QString ''gpt-4o,nope'')) =
        (\<lparr>status = 400,
          payload = Obj [(''error'', Str ''Query parameter 'q' is required''),
                         (''example'', Str compare_example)]\<rparr>, [])
   \<and> '' gpt-4o'' \<in> set (split_comma '' gpt-4o,nope'') \<and> '' gpt-4o'' \<notin> set MODELS
   \<and> getProp (payload (fst (compare_handler world_hi
         (sample_query (QString ''Hi'') (QString '' gpt-4o,nope''))))) ''error''
       = Str ''Invalid models: nope''
   \<and> modelsList_of [] = [[]] \<and> [] \<notin> set MODELS
   \<and> getProp (payload (fst (compare_handler world_hi
         (sample_query (QString ''Hi'') (QString []))))) ''error''
       = Str ''Query parameter 'models' is required (comma-separated)''"
  by (simp add: compare_handler_def modelsList_of_def trim_def isWhiteSpace_def MODELS_def
      sample_query_def)

text \<open>
  Claim C5, amended. For every compare request with a non-empty \<^verbatim>\<open>q\<close> and a
  non-empty \<^verbatim>\<open>models\<close> string whose comma-separated list has at least one entry
  that, once trimmed, is outside the registry, the response is a single 400 with no
  outbound call, and its error text is \<^verbatim>\<open>Invalid models: \<close> followed by all such entries (trimmed, in list
  order, duplicates repeated, joined by a comma and a space), so every one of them
  occurs in it, whatever valid identifiers are mixed in.
\<close>

theorem compare_reports_all_invalid_models:
  assumes "q query = QString message" and "message \<noteq> []"
    and "models query = QString ms" and "ms \<noteq> []"
    and "\<exists>model \<in> set (modelsList_of ms). model \<notin> set MODELS"
  shows "compare_handler w query =
      (\<lparr>status = 400,
        payload = Obj [(''error'', Str (''Invalid models: ''
                         @ join '', '' (filter (\<lambda>model. model \<notin> set MODELS) (modelsList_of ms)))),
                       (''available_models'', Arr (map Str MODELS))]\<rparr>, [])
    \<and> (\<forall>model \<in> set (modelsList_of ms). model \<notin> set MODELS \<longrightarrow>
          (\<exists>pre post. join '', '' (filter (\<lambda>model. model \<notin> set MODELS) (modelsList_of ms))
                         = pre @ model @ post))"
proof
  from assms(5) obtain bad where "bad \<in> set (modelsList_of ms)" and "bad \<notin> set MODELS"
    by blast
  with assms(1-4) show "compare_handler w query =
      (\<lparr>status = 400,
        payload = Obj [(''error'', Str (''Invalid models: ''
                         @ join '', '' (filter (\<lambda>model. model \<notin> set MODELS) (modelsList_of ms)))),
                       (''available_models'', Arr (map Str MODELS))]\<rparr>, [])"
    by (rule compare_invalid_models)
next
  show "\<forall>model \<in> set (modelsList_of ms). model \<notin> set MODELS \<longrightarrow>
          (\<exists>pre post. join '', '' (filter (\<lambda>model. model \<notin> set MODELS) (modelsList_of ms))
                         = pre @ model @ post)"
  proof (intro ballI impI)
    fix model
    assume "model \<in> set (modelsList_of ms)" and "model \<notin> set MODELS"
    then have "model \<in> set (filter (\<lambda>model. model \<notin> set MODELS) (modelsList_of ms))"
      by simp
    then show "\<exists>pre post. join '', '' (filter (\<lambda>model. model \<notin> set MODELS) (modelsList_of ms))
                         = pre @ model @ post"
      by (rule join_mentions)
  qed
qed

theorem compare_reports_all_invalid_models_witness:
  "modelsList_of ''gpt-4o, nope ,bad,nope'' = [''gpt-4o'', ''nope'', ''bad'', ''nope'']
   \<and> ''nope'' \<notin> set MODELS \<and> ''bad'' \<notin> set MODELS
   \<and> compare_handler world_hi (sample_query (QString ''Hi'') (QString ''gpt-4o, nope ,bad,nope'')) =
        (\<lparr>status = 400,
          payload = Obj [(''error'', Str ''Invalid models: nope, bad, nope''),
                         (''available_models'', Arr (map Str MODELS))]\<rparr>, [])"
proof -
  let ?query = "sample_query (QString ''Hi'') (QString ''gpt-4o, nope ,bad,nope'')"
  have listed: "modelsList_of ''gpt-4o, nope ,bad,nope'' = [''gpt-4o'', ''nope'', ''bad'', ''nope'']"
    by (simp add: modelsList_of_def trim_def isWhiteSpace_def)
  have unknown: "''nope'' \<notin> set MODELS" "''bad'' \<notin> set MODELS" and known: "''gpt-4o'' \<in> set MODELS"
    by (simp_all add: MODELS_def)
  have a: "q ?query = QString ''Hi''" and b: "''Hi'' \<noteq> []"
    and c: "models ?query = QString ''gpt-4o, nope ,bad,nope''"
    and d: "''gpt-4o, nope ,bad,nope'' \<noteq> []"
    by (simp_all add: sample_query_def)
  from listed unknown
  have e: "\<exists>model \<in> set (modelsList_of ''gpt-4o, nope ,bad,nope''). model \<notin> set MODELS"
    by simp
  from compare_reports_all_invalid_models [OF a b c d e, of world_hi] listed unknown known
  have "compare_handler world_hi ?query =
        (\<lparr>status = 400,
          payload = Obj [(''error'', Str ''Invalid models: nope, bad, nope''),
                         (''available_models'', Arr (map Str MODELS))]\<rparr>, [])"
    by simp
  with listed unknown show ?thesis by simp
qed

section \<open>The results of the helper\<close>

lemma nullish_opt_prop: "nullish v \<Longrightarrow> opt_prop v key = Undefined"
  by (simp add: opt_prop_def)

lemma nullish_falsy: "nullish v \<Longrightarrow> \<not> truthy v"
  by (cases v) simp_all

lemma first_content_defined:
  "\<not> nullish result \<Longrightarrow>
   first_content result
     = Inr (opt_prop (opt_prop (opt_prop (getProp result ''choices'') ''0'') ''message'') ''content'')"
  by (cases result) (simp_all add: first_content_def)

text \<open>A result returned from inside the \<^verbatim>\<open>try\<close> block starts with the model and has
  the time between the first two readings of the clock.\<close>

lemma try_block_shape:
  "try_block env model = Inr r \<Longrightarrow>
   \<exists>rest. r = Obj ((''model'', Str model) # rest)
      \<and> map_of rest ''responseTime'' = Some (Num (Fin (of_int (settled env - started env))))"
  by (auto simp: try_block_def Let_def split: fetch_outcome.splits sum.splits if_splits)

text \<open>
  Claim C6, as stated, fails: when the remote endpoint replies with a non-success
  status and reading the body fails (\<^verbatim>\<open>response.text()\<close> rejects), the exception is
  caught and the error field holds the message of the exception, not the raw error
  body, and the response time is the one taken in the \<^verbatim>\<open>catch\<close> block.
\<close>

theorem non_success_status_with_unreadable_body:
  "outcome (remote world_broken_body 0) = Resolved reply_broken_body
   \<and> \<not> ok reply_broken_body
   \<and> text_body reply_broken_body = Inl (JsError ''terminated'')
   \<and> snd (callGitHubModel world_broken_body [] ''gpt-4o'' ''Hello'' (Fin (7 / 10)) (Fin 1000)) =
        Obj [(''model'', Str ''gpt-4o''), (''error'', Str ''terminated''),
             (''responseTime'', Num (Fin 300))]"
  by (simp add: sample_defs helper_defs)

text \<open>
  Claim C6, amended. For every invocation of the helper in which the remote endpoint
  replies with a non-success status, the result has exactly the fields \<^verbatim>\<open>model\<close>,
  \<^verbatim>\<open>error\<close> and \<^verbatim>\<open>responseTime\<close> and no \<^verbatim>\<open>response\<close> field, and the model is the
  one given. When the body can be read (\<^verbatim>\<open>text()\<close> resolves), the error field holds
  the raw error body and the response time is the difference of the first two clock
  readings; when reading the body fails (\<^verbatim>\<open>text()\<close> rejects), the error field holds
  the message of the exception and the response time is the difference of the
  reading in the \<^verbatim>\<open>catch\<close> block and the first reading.
\<close>

theorem non_success_status_gives_error_result:
  assumes "outcome (remote w (length issued)) = Resolved response" and "\<not> ok response"
  shows "snd (callGitHubModel w issued model message temp maxTok) =
      (case text_body response of
         Inr body \<Rightarrow>
           Obj [(''model'', Str model), (''error'', Str body),
                (''responseTime'', Num (Fin (of_int
                   (settled (remote w (length issued)) - started (remote w (length issued))))))]
       | Inl e \<Rightarrow>
           Obj [(''model'', Str model), (''error'', Str (err_message e)),
                (''responseTime'', Num (Fin (of_int
                   (caught (remote w (length issued)) - started (remote w (length issued))))))])
    \<and> own_keys (snd (callGitHubModel w issued model message temp maxTok))
        = [''model'', ''error'', ''responseTime'']
    \<and> getProp (snd (callGitHubModel w issued model message temp maxTok)) ''response''
        = Undefined"
proof (cases "text_body response")
  case (Inl e)
  with assms have "snd (callGitHubModel w issued model message temp maxTok) =
      Obj [(''model'', Str model), (''error'', Str (err_message e)),
           (''responseTime'', Num (Fin (of_int
              (caught (remote w (length issued)) - started (remote w (length issued))))))]"
    by (simp add: callGitHubModel_def try_block_def Let_def)
  with Inl show ?thesis by simp
next
  case (Inr body)
  with assms have "snd (callGitHubModel w issued model message temp maxTok) =
      Obj [(''model'', Str model), (''error'', Str body),
           (''responseTime'', Num (Fin (of_int
              (settled (remote w (length issued)) - started (remote w (length issued))))))]"
    by (simp add: callGitHubModel_def try_block_def Let_def)
  with Inr show ?thesis by simp
qed

theorem non_success_status_gives_error_result_witness:
  "outcome (remote world_rate_limited 0) = Resolved (reply_error ''rate limited'')
   \<and> \<not> ok (reply_error ''rate limited'')
   \<and> text_body (reply_error ''rate limited'') = Inr ''rate limited''
   \<and> snd (callGitHubModel world_rate_limited [] ''gpt-4o'' ''Hello'' (Fin (7 / 10)) (Fin 1000)) =
        Obj [(''model'', Str ''gpt-4o''), (''error'', Str ''rate limited''),
             (''responseTime'', Num (Fin 250))]
   \<and> getProp (snd (callGitHubModel world_rate_limited [] ''gpt-4o'' ''Hello''
                     (Fin (7 / 10)) (Fin 1000))) ''response'' = Undefined"
proof -
  have a: "outcome (remote world_rate_limited (length ([] :: fetch_request list)))
      = Resolved (reply_error ''rate limited'')"
    by (simp add: sample_defs)
  have b: "\<not> ok (reply_error ''rate limited'')"
    by (simp add: reply_error_def)
  have body: "text_body (reply_error ''rate limited'') = Inr ''rate limited''"
    by (simp add: reply_error_def)
  note claim = non_success_status_gives_error_result
    [OF a b, of "''gpt-4o''" "''Hello''" "Fin (7 / 10)" "Fin 1000"]
  from claim body
  have result: "snd (callGitHubModel world_rate_limited [] ''gpt-4o'' ''Hello'' (Fin (7 / 10)) (Fin 1000)) =
        Obj [(''model'', Str ''gpt-4o''), (''error'', Str ''rate limited''),
             (''responseTime'', Num (Fin 250))]"
    by (simp add: sample_defs)
  from claim have "getProp (snd (callGitHubModel world_rate_limited [] ''gpt-4o'' ''Hello''
                     (Fin (7 / 10)) (Fin 1000))) ''response'' = Undefined"
    by blast
  with a b body result show ?thesis by simp
qed

text \<open>
  Claim C8, as stated, fails: a reply with a success status whose JSON body is
  \<^verbatim>\<open>null\<close> makes \<^verbatim>\<open>result.choices\<close> throw, and a reply with a success status whose
  body is not JSON makes \<^verbatim>\<open>json()\<close> reject; in both cases the helper returns a
  failure result with no \<^verbatim>\<open>response\<close> field, and the chat handler answers 500.
  And a content that is present but falsy, such as the number 0, is not passed on:
  the response is the empty string.
\<close>

theorem success_status_without_content_is_failure:
  "ok reply_null \<and> json_body reply_null = Inr Null
   \<and> snd (callGitHubModel world_null [] ''gpt-4o'' ''Hello'' (Fin (7 / 10)) (Fin 1000)) =
        Obj [(''model'', Str ''gpt-4o''),
             (''error'', Str ''Cannot read properties of null (reading 'choices')''),
             (''responseTime'', Num (Fin 300))]
   \<and> status (fst (chat_handler world_null ''gpt-4o'' sample_chat)) = 500
   \<and> ok reply_html
   \<and> snd (callGitHubModel world_html [] ''gpt-4o'' ''Hello'' (Fin (7 / 10)) (Fin 1000)) =
        Obj [(''model'', Str ''gpt-4o''),
             (''error'', Str ''Unexpected token < in JSON at position 0''),
             (''responseTime'', Num (Fin 300))]
   \<and> ok reply_zero
   \<and> json_body reply_zero = Inr (Obj
        [(''choices'', Arr [Obj [(''message'', Obj [(''content'', Num (Fin 0))])]])])
   \<and> snd (callGitHubModel world_zero [] ''gpt-4o'' ''Hello'' (Fin (7 / 10)) (Fin 1000)) =
        Obj [(''model'', Str ''gpt-4o''), (''response'', Str []), (''usage'', Undefined),
             (''responseTime'', Num (Fin 250))]"
  by (simp add: chat_handler_def MODELS_def sample_defs helper_defs temp_of_def maxTok_of_def)

text \<open>
  Claim C8, amended. For every outbound call answered with a success status whose
  body parses as JSON to a value other than \<^verbatim>\<open>null\<close>, the helper returns the model,
  the first completion's message content as \<^verbatim>\<open>response\<close>, the \<^verbatim>\<open>usage\<close> of the
  reply as it is, and the response time; the response is that content when the
  content is truthy, and the empty string when the choices, the first choice, its
  message or its content is absent or the content is any other falsy value
  (\<^verbatim>\<open>null\<close>, \<^verbatim>\<open>false\<close>, 0, \<^verbatim>\<open>NaN\<close> or the empty string). The reply of the
  end-to-end example gives the envelope of the example.
\<close>

theorem success_extracts_first_content:
  assumes "outcome (remote w (length issued)) = Resolved response" and "ok response"
    and "json_body response = Inr result" and "\<not> nullish result"
  shows "\<exists>content.
      content = opt_prop (opt_prop (opt_prop (getProp result ''choices'') ''0'') ''message'') ''content''
      \<and> snd (callGitHubModel w issued model message temp maxTok) =
          Obj [(''model'', Str model),
               (''response'', if truthy content then content else Str []),
               (''usage'', getProp result ''usage''),
               (''responseTime'', Num (Fin (of_int
                  (settled (remote w (length issued)) - started (remote w (length issued))))))]
      \<and> (nullish (getProp result ''choices'')
          \<or> nullish (opt_prop (getProp result ''choices'') ''0'')
          \<or> nullish (opt_prop (opt_prop (getProp result ''choices'') ''0'') ''message'')
          \<or> nullish content
          \<or> content \<in> set [Null, Bool False, Num (Fin 0), Num NaN, Str []]
          \<longrightarrow> getProp (snd (callGitHubModel w issued model message temp maxTok)) ''response''
                = Str [])
      \<and> (truthy content
          \<longrightarrow> getProp (snd (callGitHubModel w issued model message temp maxTok)) ''response''
                = content)
      \<and> getProp (snd (callGitHubModel w issued model message temp maxTok)) ''usage''
          = getProp result ''usage''"
proof -
  define content where
    "content = opt_prop (opt_prop (opt_prop (getProp result ''choices'') ''0'') ''message'') ''content''"
  from assms(4) have first: "first_content result = Inr content"
    by (simp add: first_content_defined content_def)
  with assms(1-3) have result: "snd (callGitHubModel w issued model message temp maxTok) =
          Obj [(''model'', Str model),
               (''response'', if truthy content then content else Str []),
               (''usage'', getProp result ''usage''),
               (''responseTime'', Num (Fin (of_int
                  (settled (remote w (length issued)) - started (remote w (length issued))))))]"
    by (simp add: callGitHubModel_def try_block_def Let_def)
  have absent: "nullish (getProp result ''choices'')
          \<or> nullish (opt_prop (getProp result ''choices'') ''0'')
          \<or> nullish (opt_prop (opt_prop (getProp result ''choices'') ''0'') ''message'')
          \<or> nullish content
          \<or> content \<in> set [Null, Bool False, Num (Fin 0), Num NaN, Str []]
          \<longrightarrow> getProp (snd (callGitHubModel w issued model message temp maxTok)) ''response''
                = Str []"
  proof
    assume "nullish (getProp result ''choices'')
          \<or> nullish (opt_prop (getProp result ''choices'') ''0'')
          \<or> nullish (opt_prop (opt_prop (getProp result ''choices'') ''0'') ''message'')
          \<or> nullish content
          \<or> content \<in> set [Null, Bool False, Num (Fin 0), Num NaN, Str []]"
    then have "nullish content \<or> content \<in> set [Null, Bool False, Num (Fin 0), Num NaN, Str []]"
      by (auto simp: content_def nullish_opt_prop)
    then have "\<not> truthy content"
      by (auto dest: nullish_falsy)
    with result show "getProp (snd (callGitHubModel w issued model message temp maxTok)) ''response''
                = Str []"
      by simp
  qed
  have present: "truthy content
          \<longrightarrow> getProp (snd (callGitHubModel w issued model message temp maxTok)) ''response''
                = content"
    using result by simp
  have usage: "getProp (snd (callGitHubModel w issued model message temp maxTok)) ''usage''
          = getProp result ''usage''"
    using result by simp
  from result absent present usage show ?thesis
    unfolding content_def by blast
qed

theorem success_extracts_first_content_witness:
  "outcome (remote world_hi 0) = Resolved reply_hi \<and> ok reply_hi
   \<and> json_body reply_hi = Inr (Obj
        [(''choices'', Arr [Obj [(''message'', Obj [(''content'', Str ''Hi!'')])]]),
         (''usage'', Obj [(''total_tokens'', Num (Fin 5))])])
   \<and> chat_handler world_hi ''gpt-4o'' sample_chat =
        (\<lparr>status = 200,
          payload = Obj [(''model'', Str ''gpt-4o''), (''response'', Str ''Hi!''),
                         (''usage'', Obj [(''total_tokens'', Num (Fin 5))]),
                         (''responseTime'', Num (Fin 250))]\<rparr>,
         [outbound_request world_hi ''gpt-4o'' ''Hello'' (Fin (7 / 10)) (Fin 1000)])"
proof -
  let ?reply = "Obj [(''choices'', Arr [Obj [(''message'', Obj [(''content'', Str ''Hi!'')])]]),
                     (''usage'', Obj [(''total_tokens'', Num (Fin 5))])]"
  have a: "outcome (remote world_hi (length ([] :: fetch_request list))) = Resolved reply_hi"
    by (simp add: sample_defs)
  have b: "ok reply_hi" and c: "json_body reply_hi = Inr ?reply"
    by (simp_all add: reply_hi_def)
  have d: "\<not> nullish ?reply" by simp
  from success_extracts_first_content [OF a b c d, of "''gpt-4o''" "''Hello''" "Fin (7 / 10)" "Fin 1000"]
  have helper: "snd (callGitHubModel world_hi [] ''gpt-4o'' ''Hello'' (Fin (7 / 10)) (Fin 1000)) =
      Obj [(''model'', Str ''gpt-4o''), (''response'', Str ''Hi!''),
           (''usage'', Obj [(''total_tokens'', Num (Fin 5))]),
           (''responseTime'', Num (Fin 250))]"
    by (simp add: opt_prop_def sample_defs)
  have known: "''gpt-4o'' \<in> set MODELS" by (simp add: MODELS_def)
  have given: "q sample_chat = QString ''Hello''" and nonempty: "''Hello'' \<noteq> []"
    by (simp_all add: sample_defs)
  have numbers: "temp_of world_hi sample_chat = Fin (7 / 10)"
      "maxTok_of world_hi sample_chat = Fin 1000"
    by (simp_all add: temp_of_def maxTok_of_def sample_defs)
  from chat_handler_validated [OF known given nonempty, of world_hi] helper numbers
  have "chat_handler world_hi ''gpt-4o'' sample_chat =
        (\<lparr>status = 200,
          payload = Obj [(''model'', Str ''gpt-4o''), (''response'', Str ''Hi!''),
                         (''usage'', Obj [(''total_tokens'', Num (Fin 5))]),
                         (''responseTime'', Num (Fin 250))]\<rparr>,
         [outbound_request world_hi ''gpt-4o'' ''Hello'' (Fin (7 / 10)) (Fin 1000)])"
    by simp
  with a b c show ?thesis by simp
qed

text \<open>
  Claim C9, as stated, fails in its bound on the response time: the time is the
  difference of two readings of \<^verbatim>\<open>Date.now()\<close>, the wall clock, and when the clock
  is set back between the readings the difference is negative.
\<close>

theorem clock_set_back_gives_negative_responseTime:
  "started (remote world_clock_back 0) = 1000 \<and> settled (remote world_clock_back 0) = 900
   \<and> snd (callGitHubModel world_clock_back [] ''gpt-4o'' ''Hello'' (Fin (7 / 10)) (Fin 1000)) =
        Obj [(''model'', Str ''gpt-4o''), (''response'', Str ''Hi!''),
             (''usage'', Obj [(''total_tokens'', Num (Fin 5))]),
             (''responseTime'', Num (Fin (- 100)))]"
  by (simp add: sample_defs helper_defs)

text \<open>
  Claim C9, amended. The helper never throws to its caller: for every input and every
  outcome of the remote call it issues one request and returns an object that
  contains the given model identifier and a numeric response time, an exception of
  the \<^verbatim>\<open>try\<close> block being turned into a failure result; the response time is
  nonnegative whenever the clock readings taken after the start are not earlier than
  the reading at the start. So the fan-out returns one result per model whatever
  the outcomes are.
\<close>

theorem helper_always_returns_result:
  "fst (callGitHubModel w issued model message temp maxTok)
     = issued @ [outbound_request w model message temp maxTok]
   \<and> (\<exists>fields responseTime.
         snd (callGitHubModel w issued model message temp maxTok) = Obj fields
         \<and> map_of fields ''model'' = Some (Str model)
         \<and> map_of fields ''responseTime'' = Some (Num (Fin (of_int responseTime)))
         \<and> (started (remote w (length issued)) \<le> settled (remote w (length issued))
              \<and> started (remote w (length issued)) \<le> caught (remote w (length issued))
             \<longrightarrow> 0 \<le> responseTime))
   \<and> (\<forall>e. try_block (remote w (length issued)) model = Inl e \<longrightarrow>
         snd (callGitHubModel w issued model message temp maxTok) =
           Obj [(''model'', Str model), (''error'', Str (err_message e)),
                (''responseTime'', Num (Fin (of_int
                   (caught (remote w (length issued)) - started (remote w (length issued))))))])
   \<and> length (snd (call_all w issued ms message temp maxTok)) = length ms"
proof (intro conjI)
  show "fst (callGitHubModel w issued model message temp maxTok)
     = issued @ [outbound_request w model message temp maxTok]"
    by (rule callGitHubModel_issued)
next
  show "\<exists>fields responseTime.
         snd (callGitHubModel w issued model message temp maxTok) = Obj fields
         \<and> map_of fields ''model'' = Some (Str model)
         \<and> map_of fields ''responseTime'' = Some (Num (Fin (of_int responseTime)))
         \<and> (started (remote w (length issued)) \<le> settled (remote w (length issued))
              \<and> started (remote w (length issued)) \<le> caught (remote w (length issued))
             \<longrightarrow> 0 \<le> responseTime)"
  proof (cases "try_block (remote w (length issued)) model")
    case (Inl e)
    then have "snd (callGitHubModel w issued model message temp maxTok) =
        Obj [(''model'', Str model), (''error'', Str (err_message e)),
             (''responseTime'', Num (Fin (of_int
                (caught (remote w (length issued)) - started (remote w (length issued))))))]"
      by (simp add: callGitHubModel_def Let_def)
    then show ?thesis
      by (intro exI [of _ "[(''model'', Str model), (''error'', Str (err_message e)),
             (''responseTime'', Num (Fin (of_int
                (caught (remote w (length issued)) - started (remote w (length issued))))))]"]
            exI [of _ "caught (remote w (length issued)) - started (remote w (length issued))"])
         simp
  next
    case (Inr r)
    from try_block_shape [OF this] obtain rest where
      r: "r = Obj ((''model'', Str model) # rest)"
      and time: "map_of rest ''responseTime'' = Some (Num (Fin (of_int
          (settled (remote w (length issued)) - started (remote w (length issued))))))"
      by blast
    from Inr r have "snd (callGitHubModel w issued model message temp maxTok)
        = Obj ((''model'', Str model) # rest)"
      by (simp add: callGitHubModel_def Let_def)
    with time show ?thesis
      by (intro exI [of _ "(''model'', Str model) # rest"]
            exI [of _ "settled (remote w (length issued)) - started (remote w (length issued))"])
         simp
  qed
next
  show "\<forall>e. try_block (remote w (length issued)) model = Inl e \<longrightarrow>
         snd (callGitHubModel w issued model message temp maxTok) =
           Obj [(''model'', Str model), (''error'', Str (err_message e)),
                (''responseTime'', Num (Fin (of_int
                   (caught (remote w (length issued)) - started (remote w (length issued))))))]"
    by (simp add: callGitHubModel_def Let_def)
next
  show "length (snd (call_all w issued ms message temp maxTok)) = length ms"
    by (rule call_all_length)
qed

theorem helper_always_returns_result_witness:
  "outcome (remote world_fail_then_hi 0) = Rejected (JsError ''fetch failed'')
   \<and> started (remote world_fail_then_hi 0) \<le> settled (remote world_fail_then_hi 0)
   \<and> started (remote world_fail_then_hi 0) \<le> caught (remote world_fail_then_hi 0)
   \<and> snd (callGitHubModel world_fail_then_hi [] ''gpt-4o'' ''Hello'' (Fin (7 / 10)) (Fin 1000)) =
        Obj [(''model'', Str ''gpt-4o''), (''error'', Str ''fetch failed''),
             (''responseTime'', Num (Fin 300))]
   \<and> (\<exists>responseTime.
         getProp (snd (callGitHubModel world_fail_then_hi [] ''gpt-4o'' ''Hello''
                         (Fin (7 / 10)) (Fin 1000))) ''responseTime''
           = Num (Fin (of_int responseTime))
         \<and> 0 \<le> responseTime)"
proof -
  let ?result = "snd (callGitHubModel world_fail_then_hi [] ''gpt-4o'' ''Hello''
                        (Fin (7 / 10)) (Fin 1000))"
  have world: "outcome (remote world_fail_then_hi 0) = Rejected (JsError ''fetch failed'')"
      "started (remote world_fail_then_hi 0) \<le> settled (remote world_fail_then_hi 0)"
      "started (remote world_fail_then_hi 0) \<le> caught (remote world_fail_then_hi 0)"
    by (simp_all add: sample_defs)
  then have thrown: "try_block (remote world_fail_then_hi 0) ''gpt-4o''
      = Inl (JsError ''fetch failed'')"
    by (simp add: try_block_def)
  note claim = helper_always_returns_result
    [where w = world_fail_then_hi and issued = "[]" and model = "''gpt-4o''"
       and message = "''Hello''" and temp = "Fin (7 / 10)" and maxTok = "Fin 1000"
       and ms = "[]"]
  from claim thrown have result: "?result =
        Obj [(''model'', Str ''gpt-4o''), (''error'', Str ''fetch failed''),
             (''responseTime'', Num (Fin 300))]"
    by (simp add: sample_defs)
  from claim obtain fields responseTime where
    shape: "?result = Obj fields"
    and time: "map_of fields ''responseTime'' = Some (Num (Fin (of_int responseTime)))"
    and bound: "started (remote world_fail_then_hi (length ([] :: fetch_request list)))
          \<le> settled (remote world_fail_then_hi (length ([] :: fetch_request list)))
        \<and> started (remote world_fail_then_hi (length ([] :: fetch_request list)))
          \<le> caught (remote world_fail_then_hi (length ([] :: fetch_request list)))
        \<longrightarrow> 0 \<le> responseTime"
    by blast
  from bound world have "0 \<le> responseTime" by simp
  with shape time
  have "getProp ?result ''responseTime'' = Num (Fin (of_int responseTime)) \<and> 0 \<le> responseTime"
    by simp
  with world result show ?thesis by blast
qed

section \<open>Temperature and token count are not validated\<close>




end
